theory Spec2Isabelle
  imports Complex_Main "HOL-Library.Sublist"
begin

section \<open>Values, strings and the constants of App.py\<close>

text \<open>
  App.py is one Streamlit script: it loads a spreadsheet into a pandas DataFrame, shows an
  editable and optionally filtered copy, writes the whole sheet back when the save button is
  pressed, and appends one row when the registration form is submitted. The model follows the
  script block by block and keeps the names of its variables.

  A Python \<open>str\<close> is modelled by the bytes of its UTF-8 encoding: emptiness, equality,
  concatenation and the substring test are the same on code points and on well-formed UTF-8.
  The Japanese literals of the script are written out byte by byte, with their reading in a
  comment.
\<close>

type_synonym label = string

datatype cell =
    CNone          \<comment> \<open>Python \<open>None\<close>\<close>
  | CNaN           \<comment> \<open>the missing value pandas puts into a frame\<close>
  | CBool bool
  | CInt int
  | CFloat real
  | CStr string

fun isna :: "cell \<Rightarrow> bool" where
  "isna CNone = True"
| "isna CNaN = True"
| "isna _ = False"

text \<open>Python truthiness, as used by \<open>not x\<close> and \<open>x if x else ""\<close>.\<close>

fun truthy :: "cell \<Rightarrow> bool" where
  "truthy CNone = False"
| "truthy CNaN = True"
| "truthy (CBool b) = b"
| "truthy (CInt i) = (i \<noteq> 0)"
| "truthy (CFloat x) = (x \<noteq> 0)"
| "truthy (CStr s) = (s \<noteq> [])"

text \<open>The substring test \<open>needle in hay\<close> of Python strings.\<close>

fun str_in :: "string \<Rightarrow> string \<Rightarrow> bool" where
  "str_in needle [] = (needle = [])"
| "str_in needle (h # hay) = (prefix needle (h # hay) \<or> str_in needle hay)"

definition col_name :: label where \<comment> \<open>tenmei, the venue's name\<close>
  "col_name = [CHR 0xE5, CHR 0xBA, CHR 0x97, CHR 0xE5, CHR 0x90, CHR 0x8D]"

definition col_genre :: label where \<comment> \<open>janru\<close>
  "col_genre = [CHR 0xE3, CHR 0x82, CHR 0xB8, CHR 0xE3, CHR 0x83, CHR 0xA3,
                CHR 0xE3, CHR 0x83, CHR 0xB3, CHR 0xE3, CHR 0x83, CHR 0xAB]"

definition col_area :: label where \<comment> \<open>eria\<close>
  "col_area = [CHR 0xE3, CHR 0x82, CHR 0xA8, CHR 0xE3, CHR 0x83, CHR 0xAA,
               CHR 0xE3, CHR 0x82, CHR 0xA2]"

definition col_rating :: label where \<comment> \<open>hyouka\<close>
  "col_rating = [CHR 0xE8, CHR 0xA9, CHR 0x95, CHR 0xE4, CHR 0xBE, CHR 0xA1]"

definition col_memo :: label where \<comment> \<open>memo\<close>
  "col_memo = [CHR 0xE3, CHR 0x83, CHR 0xA1, CHR 0xE3, CHR 0x83, CHR 0xA2]"

definition col_address :: label where \<comment> \<open>juusho\<close>
  "col_address = [CHR 0xE4, CHR 0xBD, CHR 0x8F, CHR 0xE6, CHR 0x89, CHR 0x80]"

definition col_created :: label where \<comment> \<open>tourokubi, the registration date\<close>
  "col_created = [CHR 0xE7, CHR 0x99, CHR 0xBB, CHR 0xE9, CHR 0x8C, CHR 0xB2,
                  CHR 0xE6, CHR 0x97, CHR 0xA5]"

definition col_lat :: label where \<comment> \<open>ido, latitude\<close>
  "col_lat = [CHR 0xE7, CHR 0xB7, CHR 0xAF, CHR 0xE5, CHR 0xBA, CHR 0xA6]"

definition col_lon :: label where \<comment> \<open>keido, longitude\<close>
  "col_lon = [CHR 0xE7, CHR 0xB5, CHR 0x8C, CHR 0xE5, CHR 0xBA, CHR 0xA6]"

definition col_delete :: label where \<comment> \<open>sakujo, the deletion checkbox\<close>
  "col_delete = [CHR 0xE5, CHR 0x89, CHR 0x8A, CHR 0xE9, CHR 0x99, CHR 0xA4]"

definition expected_columns :: "label list" where
  "expected_columns =
     [col_name, col_genre, col_area, col_rating, col_memo, col_address, col_created,
      col_lat, col_lon]"

definition tachikawa :: string where \<comment> \<open>the locality name\<close>
  "tachikawa = [CHR 0xE7, CHR 0xAB, CHR 0x8B, CHR 0xE5, CHR 0xB7, CHR 0x9D]"

definition tokyo_to :: string where \<comment> \<open>the region name\<close>
  "tokyo_to = [CHR 0xE6, CHR 0x9D, CHR 0xB1, CHR 0xE4, CHR 0xBA, CHR 0xAC,
               CHR 0xE9, CHR 0x83, CHR 0xBD]"

definition prefix_tokyo_tachikawa :: string where \<comment> \<open>toukyouto tachikawashi, then a space\<close>
  "prefix_tokyo_tachikawa =
     [CHR 0xE6, CHR 0x9D, CHR 0xB1, CHR 0xE4, CHR 0xBA, CHR 0xAC, CHR 0xE9, CHR 0x83, CHR 0xBD,
      CHR 0xE7, CHR 0xAB, CHR 0x8B, CHR 0xE5, CHR 0xB7, CHR 0x9D, CHR 0xE5, CHR 0xB8, CHR 0x82,
      CHR 0x20]"

definition prefix_tokyo :: string where \<comment> \<open>toukyouto, then a space\<close>
  "prefix_tokyo =
     [CHR 0xE6, CHR 0x9D, CHR 0xB1, CHR 0xE4, CHR 0xBA, CHR 0xAC, CHR 0xE9, CHR 0x83, CHR 0xBD,
      CHR 0x20]"

section \<open>Data frames\<close>

text \<open>
  A frame is its column labels and its rows, every row aligned with the labels. pandas gives
  every column one type, and the two places where this changes a value are modelled: a
  column of numbers and missing values that are not all integers is stored as floats when the
  frame is built, and a frame of nothing but numbers comes out of \<open>.values\<close> as floats when
  one of them is a float. An integer is taken to fit 64 bits, and a float is the real number
  it stands for.
\<close>

record dataframe =
  columns :: "label list"
  rows :: "cell list list"

text \<open>A row of \<open>get_all_records()\<close> is a dict from header label to value.\<close>

type_synonym raw_record = "(label \<times> cell) list"

text \<open>The labels of a list of dicts, each once, in the order of first appearance.\<close>

fun first_seen :: "label list \<Rightarrow> label list \<Rightarrow> label list" where
  "first_seen seen [] = []"
| "first_seen seen (k # ks) =
     (if k \<in> set seen then first_seen seen ks else k # first_seen (k # seen) ks)"

definition record_cell :: "raw_record \<Rightarrow> label \<Rightarrow> cell" where
  "record_cell r c = (case map_of r c of None \<Rightarrow> CNaN | Some v \<Rightarrow> v)"

fun is_int :: "cell \<Rightarrow> bool" where
  "is_int (CInt i) = True"
| "is_int _ = False"

fun is_float :: "cell \<Rightarrow> bool" where \<comment> \<open>the missing value \<open>nan\<close> is a float as well\<close>
  "is_float (CFloat x) = True"
| "is_float CNaN = True"
| "is_float _ = False"

definition is_number :: "cell \<Rightarrow> bool" where
  "is_number v = (is_int v \<or> is_float v)"

fun to_float :: "cell \<Rightarrow> cell" where
  "to_float (CInt i) = CFloat (of_int i)"
| "to_float CNone = CNaN"
| "to_float v = v"

text \<open>
  The type pandas infers for a column of objects: integers alone stay integers; numbers and
  missing values, not all of them integers and not all of them \<open>None\<close>, become a float
  column, where an integer is stored as a float and \<open>None\<close> as \<open>nan\<close>; a column holding
  text or a boolean keeps its objects.
\<close>

definition float_column :: "cell list \<Rightarrow> bool" where
  "float_column col =
     (list_all (\<lambda>v. is_number v \<or> isna v) col \<and> \<not> list_all is_int col \<and>
      \<not> list_all (\<lambda>v. v = CNone) col)"

definition as_stored :: "cell list \<Rightarrow> cell \<Rightarrow> cell" where
  "as_stored col v = (if float_column col then to_float v else v)"

definition raw_column :: "raw_record list \<Rightarrow> label \<Rightarrow> cell list" where
  "raw_column data c = map (\<lambda>r. record_cell r c) data"

definition DataFrame :: "raw_record list \<Rightarrow> dataframe" where
  "DataFrame data =
     (let cols = first_seen [] (concat (map (map fst) data))
      in \<lparr>columns = cols,
          rows = map (\<lambda>r. map (\<lambda>c. as_stored (raw_column data c) (record_cell r c)) cols) data\<rparr>)"

definition df_empty :: "dataframe \<Rightarrow> bool" where
  "df_empty df = (rows df = [] \<or> columns df = [])"

text \<open>\<open>df[col] = None\<close> for a label the frame does not have: a new last column.\<close>

definition add_none_column :: "label \<Rightarrow> dataframe \<Rightarrow> dataframe" where
  "add_none_column col df =
     \<lparr>columns = columns df @ [col], rows = map (\<lambda>r. r @ [CNone]) (rows df)\<rparr>"

definition ensure_column :: "label \<Rightarrow> dataframe \<Rightarrow> dataframe" where
  "ensure_column col df = (if col \<notin> set (columns df) then add_none_column col df else df)"

text \<open>
  Lines 86 to 96, the frame \<open>df\<close> the rest of the script works on: the frame of the
  records, replaced by an empty frame with the expected columns when it is empty, and then
  given the latitude, longitude and address columns where they are missing.
\<close>

definition load_df :: "raw_record list \<Rightarrow> dataframe" where
  "load_df data =
     (let df = DataFrame data;
          df = (if df_empty df then \<lparr>columns = expected_columns, rows = []\<rparr> else df)
      in fold ensure_column [col_lat, col_lon, col_address] df)"

section \<open>The environment and the observable state\<close>

text \<open>
  What the script cannot decide is a parameter: whether geopy could be imported, the clock,
  what the geocoding service answers to its successive calls, which calls of the spreadsheet
  client raise, and the regular-expression search of pandas behind the keyword filter.
\<close>

record location =
  latitude :: real
  longitude :: real
  loc_address :: string

datatype geo_reply = GeoRaise | GeoNone | GeoLoc location

record env =
  GEOPY_AVAILABLE :: bool
  now :: string                      \<comment> \<open>\<open>datetime.now().strftime("%Y-%m-%d %H:%M")\<close>\<close>
  geo_replies :: "geo_reply list"    \<comment> \<open>the service's answer to its n-th call; \<open>None\<close> beyond\<close>
  store_faults :: "nat list"         \<comment> \<open>the store calls, by number, that raise\<close>
  regex_ok :: "string \<Rightarrow> bool"        \<comment> \<open>the query compiles as a regular expression\<close>
  str_contains :: "string \<Rightarrow> cell \<Rightarrow> bool"
                                     \<comment> \<open>\<open>astype(str)\<close>, then \<open>str.contains(query, case=False)\<close>\<close>

datatype store_call = Clear | Update "cell list list" | AppendRow "cell list"

record world =
  grid :: "cell list list"           \<comment> \<open>the cells of the worksheet, header row first\<close>
  store_log :: "store_call list"     \<comment> \<open>every write call issued to the worksheet\<close>
  geo_log :: "string list"           \<comment> \<open>every query sent to the geocoder\<close>

definition store_up :: "env \<Rightarrow> world \<Rightarrow> bool" where
  "store_up e w = (length (store_log w) \<notin> set (store_faults e))"

text \<open>Each store call returns whether it returned normally. A call that raises writes nothing.\<close>

definition sheet_clear :: "env \<Rightarrow> world \<Rightarrow> bool \<times> world" where
  "sheet_clear e w =
     (store_up e w,
      w\<lparr>grid := (if store_up e w then [] else grid w), store_log := store_log w @ [Clear]\<rparr>)"

fun overlay_row :: "cell list \<Rightarrow> cell list \<Rightarrow> cell list" where
  "overlay_row [] old = old"
| "overlay_row new [] = new"
| "overlay_row (x # new) (y # old) = x # overlay_row new old"

fun overlay_grid :: "cell list list \<Rightarrow> cell list list \<Rightarrow> cell list list" where
  "overlay_grid [] old = old"
| "overlay_grid new [] = new"
| "overlay_grid (r # new) (s # old) = overlay_row r s # overlay_grid new old"

text \<open>\<open>sheet.update(range_name="A1", values=...)\<close> writes the block from the top left cell.\<close>

definition sheet_update :: "env \<Rightarrow> cell list list \<Rightarrow> world \<Rightarrow> bool \<times> world" where
  "sheet_update e vals w =
     (store_up e w,
      w\<lparr>grid := (if store_up e w then overlay_grid vals (grid w) else grid w),
        store_log := store_log w @ [Update vals]\<rparr>)"

definition sheet_append_row :: "env \<Rightarrow> cell list \<Rightarrow> world \<Rightarrow> bool \<times> world" where
  "sheet_append_row e r w =
     (store_up e w,
      w\<lparr>grid := (if store_up e w then grid w @ [r] else grid w),
        store_log := store_log w @ [AppendRow r]\<rparr>)"

section \<open>The editable view\<close>

datatype script_error = ValueError | ReError

definition insert_first :: "label \<Rightarrow> cell \<Rightarrow> dataframe \<Rightarrow> dataframe" where
  "insert_first col v df = \<lparr>columns = col # columns df, rows = map (\<lambda>r. v # r) (rows df)\<rparr>"

text \<open>
  Lines 159 to 166: a copy of \<open>df\<close> with the deletion checkbox as its first column, all
  unchecked, filtered by the search query when there is one. \<open>insert\<close> raises when the
  label is already a column, and the search raises on a query that is no regular expression;
  neither is caught, which ends the run of the script.
\<close>

definition edit_df :: "env \<Rightarrow> dataframe \<Rightarrow> string \<Rightarrow> script_error + dataframe" where
  "edit_df e df search_query =
     (if col_delete \<in> set (columns df) then Inl ValueError
      else let edit = insert_first col_delete (CBool False) df in
        if search_query \<noteq> [] then
          (if \<not> regex_ok e search_query then Inl ReError
           else Inr (edit\<lparr>rows := filter (list_ex (str_contains e search_query)) (rows edit)\<rparr>))
        else Inr edit)"

definition cell_at :: "label list \<Rightarrow> cell list \<Rightarrow> label \<Rightarrow> cell option" where
  "cell_at cols r c = map_of (zip cols r) c"

definition flag_of :: "label list \<Rightarrow> cell list \<Rightarrow> bool option" where
  "flag_of cols r = (case cell_at cols r col_delete of Some (CBool b) \<Rightarrow> Some b | _ \<Rightarrow> None)"

fun text_or_missing :: "cell option \<Rightarrow> bool" where
  "text_or_missing None = True"
| "text_or_missing (Some (CStr s)) = True"
| "text_or_missing (Some v) = isna v"

text \<open>
  What \<open>st.data_editor\<close> with \<open>num_rows="fixed"\<close> can return for a frame: the same columns
  and the same number of rows, every row aligned, any cell changed, the checkbox column
  still holding booleans. The name column is configured as a text column (line 180): the
  widget raises on a name column of another type and returns text or a missing value in it.
\<close>

definition editor_result :: "dataframe \<Rightarrow> dataframe \<Rightarrow> bool" where
  "editor_result shown edited_df =
     (columns edited_df = columns shown \<and> length (rows edited_df) = length (rows shown) \<and>
      list_all (\<lambda>r. length r = length (columns shown) \<and> flag_of (columns shown) r \<noteq> None \<and>
                    text_or_missing (cell_at (columns shown) r col_name))
        (rows edited_df))"

section \<open>Saving the changes\<close>

definition drop_column :: "label \<Rightarrow> label list \<Rightarrow> cell list \<Rightarrow> cell list" where
  "drop_column c cols r = map snd (filter (\<lambda>kv. fst kv \<noteq> c) (zip cols r))"

text \<open>
  Line 200, \<open>edited_df[~edited_df[delete]].drop(columns=[delete])\<close>; \<open>None\<close> when the
  expression raises (no such column, or a flag that is no boolean).
\<close>

definition save_df :: "dataframe \<Rightarrow> dataframe option" where
  "save_df edited_df =
     (let cols = columns edited_df in
      if col_delete \<notin> set cols then None
      else if \<not> list_all (\<lambda>r. flag_of cols r \<noteq> None) (rows edited_df) then None
      else Some \<lparr>columns = filter (\<lambda>k. k \<noteq> col_delete) cols,
                 rows = map (drop_column col_delete cols)
                          (filter (\<lambda>r. flag_of cols r = Some False) (rows edited_df))\<rparr>)"

definition reindex :: "label list \<Rightarrow> dataframe \<Rightarrow> dataframe" where
  "reindex cols df =
     \<lparr>columns = cols,
      rows = map (\<lambda>r. map (\<lambda>c. case cell_at (columns df) r c of None \<Rightarrow> CNaN | Some v \<Rightarrow> v) cols)
               (rows df)\<rparr>"

definition fillna :: "cell \<Rightarrow> dataframe \<Rightarrow> dataframe" where
  "fillna v df = df\<lparr>rows := map (map (\<lambda>x. if isna x then v else x)) (rows df)\<rparr>"

text \<open>Lines 220 to 227: the expected columns in their order, missing values as \<open>""\<close>.\<close>

definition final_save_df :: "dataframe \<Rightarrow> dataframe" where
  "final_save_df sdf = fillna (CStr []) (reindex expected_columns sdf)"

text \<open>
  \<open>.values.tolist()\<close>: the cells as Python objects, except that a frame whose cells are all
  numbers, one of them a float, has the one type float and gives every integer as a float.
\<close>

definition values_tolist :: "cell list list \<Rightarrow> cell list list" where
  "values_tolist rs =
     (if list_all (list_all is_number) rs \<and> list_ex (list_ex is_float) rs
      then map (map to_float) rs else rs)"

definition update_values :: "dataframe \<Rightarrow> cell list list" where
  "update_values fdf = map CStr (columns fdf) # values_tolist (rows fdf)"

datatype save_outcome = Saved | FilterActive | SaveError

text \<open>
  Lines 197 to 237, the handler of the save button. The rows to keep are computed first; a
  non-empty search query then ends the handler with a warning; otherwise the sheet is cleared
  and rewritten. Any exception is caught and reported as a save error.
\<close>

definition save_changes :: "env \<Rightarrow> dataframe \<Rightarrow> string \<Rightarrow> world \<Rightarrow> save_outcome \<times> world" where
  "save_changes e edited_df search_query w =
     (case save_df edited_df of
        None \<Rightarrow> (SaveError, w)
      | Some sdf \<Rightarrow>
          if search_query \<noteq> [] then (FilterActive, w)
          else
            let (cleared, w1) = sheet_clear e w in
            if \<not> cleared then (SaveError, w1)
            else
              let (updated, w2) = sheet_update e (update_values (final_save_df sdf)) w1 in
              if \<not> updated then (SaveError, w2) else (Saved, w2))"

section \<open>Registering a new venue\<close>

record form =
  name :: string
  genre :: string
  area :: string
  rating :: int
  comment :: string
  address :: string
  lat_input :: string
  lon_input :: string

definition geocode :: "env \<Rightarrow> string \<Rightarrow> world \<Rightarrow> geo_reply \<times> world" where
  "geocode e query w =
     (let n = length (geo_log w)
      in (if n < length (geo_replies e) then geo_replies e ! n else GeoNone,
          w\<lparr>geo_log := geo_log w @ [query]\<rparr>))"

text \<open>Lines 287 to 291, the query of the second attempt.\<close>

definition search_word :: "string \<Rightarrow> string" where
  "search_word addr =
     (if \<not> str_in tachikawa addr then prefix_tokyo_tachikawa @ addr
      else if \<not> str_in tokyo_to addr then prefix_tokyo @ addr
      else addr)"

datatype geo_status = GeoSkipped | GeoFound location | GeoNotFound | GeoFailed

text \<open>
  Lines 278 to 304: the literal address first; when that finds nothing, the qualified query if
  it differs from the address. An exception raised by the geocoder is caught and reported.
\<close>

definition resolve :: "env \<Rightarrow> string \<Rightarrow> world \<Rightarrow> geo_status \<times> world" where
  "resolve e addr w =
     (let (loc, w1) = geocode e addr w in
      case loc of
        GeoRaise \<Rightarrow> (GeoFailed, w1)
      | GeoLoc l \<Rightarrow> (GeoFound l, w1)
      | GeoNone \<Rightarrow>
          if search_word addr \<noteq> addr then
            (let (loc2, w2) = geocode e (search_word addr) w1 in
             case loc2 of
               GeoRaise \<Rightarrow> (GeoFailed, w2)
             | GeoLoc l \<Rightarrow> (GeoFound l, w2)
             | GeoNone \<Rightarrow> (GeoNotFound, w2))
          else (GeoNotFound, w1))"

text \<open>
  Lines 272 to 308: the coordinates of the new row. The geocoder is asked when geopy is
  there, the latitude field is empty and the address is not.
\<close>

definition or_empty :: "cell \<Rightarrow> cell" where
  "or_empty v = (if truthy v then v else CStr [])"

definition locate :: "env \<Rightarrow> form \<Rightarrow> world \<Rightarrow> (geo_status \<times> cell \<times> cell) \<times> world" where
  "locate e f w =
     (let lat_val = CStr (lat_input f);
          lon_val = CStr (lon_input f);
          (status, w1) =
            (if GEOPY_AVAILABLE e \<and> \<not> truthy lat_val \<and> address f \<noteq> []
             then resolve e (address f) w else (GeoSkipped, w));
          (lat_val, lon_val) =
            (case status of
               GeoFound loc \<Rightarrow> (CFloat (latitude loc), CFloat (longitude loc))
             | _ \<Rightarrow> (lat_val, lon_val))
      in ((status, or_empty lat_val, or_empty lon_val), w1))"

datatype register_outcome = NameRequired | Registered "cell list" | RegisterError

text \<open>
  Lines 266 to 325, the handler of the submitted form. An empty name ends it with a warning.
  Otherwise the row is built in the order of the expected columns and appended; an exception
  of the store is caught and reported as a registration error.
\<close>

definition register :: "env \<Rightarrow> form \<Rightarrow> world \<Rightarrow> (register_outcome \<times> geo_status) \<times> world" where
  "register e f w =
     (if name f = [] then ((NameRequired, GeoSkipped), w)
      else
        let timestamp = now e;
            ((status, lat_val, lon_val), w1) = locate e f w;
            new_row_ordered =
              [CStr (name f), CStr (genre f), CStr (area f), CInt (rating f), CStr (comment f),
               CStr (address f), CStr timestamp, lat_val, lon_val];
            (appended, w2) = sheet_append_row e new_row_ordered w1
        in ((if appended then Registered new_row_ordered else RegisterError, status), w2))"

section \<open>The specification's vocabulary\<close>

text \<open>
  The definitions of this section follow the words of the specification; the theorems
  compare them with what the script computes.
\<close>

text \<open>The header row every written table image starts with.\<close>

definition header_row :: "cell list" where
  "header_row = map CStr expected_columns"

text \<open>
  A row in canonical order: one cell for each canonical column, the row's value for that
  column, the empty string where the row has no such column or no value in it.
\<close>

definition canonical_row :: "label list \<Rightarrow> cell list \<Rightarrow> cell list" where
  "canonical_row cols r =
     map (\<lambda>c. case cell_at cols r c of
                None \<Rightarrow> CStr []
              | Some v \<Rightarrow> if isna v then CStr [] else v) expected_columns"



text \<open>The column labels a raw table mentions.\<close>

definition raw_columns :: "raw_record list \<Rightarrow> label set" where
  "raw_columns data = set (concat (map (map fst) data))"

text \<open>The rows of a view whose deletion flag is false, in the view's order.\<close>

definition kept_rows :: "dataframe \<Rightarrow> cell list list" where
  "kept_rows view = filter (\<lambda>r. flag_of (columns view) r = Some False) (rows view)"

text \<open>
  The closed sets of genres and areas, as the select boxes of the script list them
  (washoku, youshoku, chuuka, itarian, raamen, kafe, izakaya, sonota; kitaguchi,
  minamiguchi, guriin supuringusu, rarapooto, ekinaka, sonota).
\<close>

definition genre_options :: "string list" where
  "genre_options =
     [[CHR 0xE5, CHR 0x92, CHR 0x8C, CHR 0xE9, CHR 0xA3, CHR 0x9F],
      [CHR 0xE6, CHR 0xB4, CHR 0x8B, CHR 0xE9, CHR 0xA3, CHR 0x9F],
      [CHR 0xE4, CHR 0xB8, CHR 0xAD, CHR 0xE8, CHR 0x8F, CHR 0xAF],
      [CHR 0xE3, CHR 0x82, CHR 0xA4, CHR 0xE3, CHR 0x82, CHR 0xBF, CHR 0xE3, CHR 0x83, CHR 0xAA,
       CHR 0xE3, CHR 0x82, CHR 0xA2, CHR 0xE3, CHR 0x83, CHR 0xB3],
      [CHR 0xE3, CHR 0x83, CHR 0xA9, CHR 0xE3, CHR 0x83, CHR 0xBC, CHR 0xE3, CHR 0x83, CHR 0xA1,
       CHR 0xE3, CHR 0x83, CHR 0xB3],
      [CHR 0xE3, CHR 0x82, CHR 0xAB, CHR 0xE3, CHR 0x83, CHR 0x95, CHR 0xE3, CHR 0x82, CHR 0xA7],
      [CHR 0xE5, CHR 0xB1, CHR 0x85, CHR 0xE9, CHR 0x85, CHR 0x92, CHR 0xE5, CHR 0xB1, CHR 0x8B],
      [CHR 0xE3, CHR 0x81, CHR 0x9D, CHR 0xE3, CHR 0x81, CHR 0xAE, CHR 0xE4, CHR 0xBB, CHR 0x96]]"

definition area_options :: "string list" where
  "area_options =
     [[CHR 0xE5, CHR 0x8C, CHR 0x97, CHR 0xE5, CHR 0x8F, CHR 0xA3],
      [CHR 0xE5, CHR 0x8D, CHR 0x97, CHR 0xE5, CHR 0x8F, CHR 0xA3],
      [CHR 0xE3, CHR 0x82, CHR 0xB0, CHR 0xE3, CHR 0x83, CHR 0xAA, CHR 0xE3, CHR 0x83, CHR 0xBC,
       CHR 0xE3, CHR 0x83, CHR 0xB3, CHR 0xE3, CHR 0x82, CHR 0xB9, CHR 0xE3, CHR 0x83, CHR 0x97,
       CHR 0xE3, CHR 0x83, CHR 0xAA, CHR 0xE3, CHR 0x83, CHR 0xB3, CHR 0xE3, CHR 0x82, CHR 0xB0,
       CHR 0xE3, CHR 0x82, CHR 0xB9],
      [CHR 0xE3, CHR 0x82, CHR 0x89, CHR 0xE3, CHR 0x82, CHR 0x89, CHR 0xE3, CHR 0x81, CHR 0xBD,
       CHR 0xE3, CHR 0x83, CHR 0xBC, CHR 0xE3, CHR 0x81, CHR 0xA8],
      [CHR 0xE9, CHR 0xA7, CHR 0x85, CHR 0xE3, CHR 0x83, CHR 0x8A, CHR 0xE3, CHR 0x82, CHR 0xAB],
      [CHR 0xE3, CHR 0x81, CHR 0x9D, CHR 0xE3, CHR 0x81, CHR 0xAE, CHR 0xE4, CHR 0xBB, CHR 0x96]]"

text \<open>
  The field rules of the specification: a non-empty name, an integer rating from 1 to 5,
  genre and area in their closed sets.
\<close>

definition valid_row :: "label list \<Rightarrow> cell list \<Rightarrow> bool" where
  "valid_row cols r =
     ((case cell_at cols r col_name of Some (CStr s) \<Rightarrow> s \<noteq> [] | _ \<Rightarrow> False) \<and>
      (case cell_at cols r col_rating of Some (CInt i) \<Rightarrow> 1 \<le> i \<and> i \<le> 5 | _ \<Rightarrow> False) \<and>
      (case cell_at cols r col_genre of Some (CStr s) \<Rightarrow> s \<in> set genre_options | _ \<Rightarrow> False) \<and>
      (case cell_at cols r col_area of Some (CStr s) \<Rightarrow> s \<in> set area_options | _ \<Rightarrow> False))"

text \<open>The geocoder's answer to the next call, and whether a resolution found a place.\<close>

definition next_reply :: "env \<Rightarrow> world \<Rightarrow> geo_reply" where
  "next_reply e w = fst (geocode e [] w)"

fun found :: "geo_status \<Rightarrow> bool" where
  "found (GeoFound loc) = True"
| "found _ = False"

text \<open>The condition of line 276 on the form.\<close>

definition geocoding_wanted :: "env \<Rightarrow> form \<Rightarrow> bool" where
  "geocoding_wanted e f = (GEOPY_AVAILABLE e \<and> lat_input f = [] \<and> address f \<noteq> [])"

section \<open>Sample inputs\<close>

definition quiet_env :: env where
  "quiet_env =
     \<lparr>GEOPY_AVAILABLE = True, now = ''2024-05-01 12:00'', geo_replies = [], store_faults = [],
      regex_ok = (\<lambda>q. True), str_contains = (\<lambda>q c. c = CStr q)\<rparr>"

definition old_world :: world where
  "old_world = \<lparr>grid = [[CStr ''old'']], store_log = [], geo_log = []\<rparr>"

definition station :: string where \<comment> \<open>tachikawa eki, the station\<close>
  "station = [CHR 0xE7, CHR 0xAB, CHR 0x8B, CHR 0xE5, CHR 0xB7, CHR 0x9D,
              CHR 0xE9, CHR 0xA7, CHR 0x85]"

definition washoku :: string where
  "washoku = [CHR 0xE5, CHR 0x92, CHR 0x8C, CHR 0xE9, CHR 0xA3, CHR 0x9F]"

definition kitaguchi :: string where
  "kitaguchi = [CHR 0xE5, CHR 0x8C, CHR 0x97, CHR 0xE5, CHR 0x8F, CHR 0xA3]"

definition venue :: "string \<Rightarrow> int \<Rightarrow> raw_record" where
  "venue n stars =
     [(col_name, CStr n), (col_genre, CStr washoku), (col_area, CStr kitaguchi),
      (col_rating, CInt stars), (col_memo, CStr []), (col_address, CStr []),
      (col_created, CStr ''2024-04-01 09:00''), (col_lat, CStr []), (col_lon, CStr [])]"

definition sample_form :: form where
  "sample_form =
     \<lparr>name = ''Gyoza Center'', genre = washoku, area = kitaguchi, rating = 3, comment = [],
      address = [], lat_input = [], lon_input = []\<rparr>"

definition three_venues :: "raw_record list" where
  "three_venues = [venue ''A'' 3, venue ''B'' 4, venue ''C'' 5]"

definition table_row :: "string \<Rightarrow> int \<Rightarrow> cell list" where
  "table_row n stars = map snd (venue n stars)"

definition view_row :: "bool \<Rightarrow> string \<Rightarrow> int \<Rightarrow> cell list" where
  "view_row flag n stars = CBool flag # table_row n stars"

definition sample_view :: "cell list list \<Rightarrow> dataframe" where
  "sample_view rs = \<lparr>columns = col_delete # expected_columns, rows = rs\<rparr>"


section \<open>Lemmas on frames and on the save handler\<close>

lemmas col_defs = col_name_def col_genre_def col_area_def col_rating_def col_memo_def
  col_address_def col_created_def col_lat_def col_lon_def col_delete_def

lemma col_delete_not_expected: "col_delete \<notin> set expected_columns"
  by (simp add: expected_columns_def col_defs)

lemma overlay_grid_empty: "overlay_grid vals [] = vals"
  by (cases vals) simp_all

lemma zip_drop_column:
  "zip (filter (\<lambda>k. k \<noteq> d) cols) (drop_column d cols r) = filter (\<lambda>kv. fst kv \<noteq> d) (zip cols r)"
proof (induction cols arbitrary: r)
  case Nil
  then show ?case by (simp add: drop_column_def)
next
  case (Cons k cols)
  show ?case
  proof (cases r)
    case Nil
    then show ?thesis by (simp add: drop_column_def)
  next
    case (Cons x xs)
    with Cons.IH [of xs] show ?thesis by (simp add: drop_column_def)
  qed
qed

lemma map_of_filter_other:
  "c \<noteq> d \<Longrightarrow> map_of (filter (\<lambda>kv. fst kv \<noteq> d) xs) c = map_of xs c"
  by (induction xs) auto

lemma cell_at_drop_column:
  "c \<noteq> d \<Longrightarrow> cell_at (filter (\<lambda>k. k \<noteq> d) cols) (drop_column d cols r) c = cell_at cols r c"
  by (simp add: cell_at_def zip_drop_column map_of_filter_other)

lemma final_row_canonical:
  "map (\<lambda>c. if isna (case cell_at (filter (\<lambda>k. k \<noteq> col_delete) cols)
                               (drop_column col_delete cols r) c of
                          None \<Rightarrow> CNaN | Some v \<Rightarrow> v)
             then CStr []
             else (case cell_at (filter (\<lambda>k. k \<noteq> col_delete) cols)
                               (drop_column col_delete cols r) c of
                     None \<Rightarrow> CNaN | Some v \<Rightarrow> v)) expected_columns
   = canonical_row cols r"
proof -
  have "\<And>c. c \<in> set expected_columns \<Longrightarrow>
      cell_at (filter (\<lambda>k. k \<noteq> col_delete) cols) (drop_column col_delete cols r) c = cell_at cols r c"
    using col_delete_not_expected by (intro cell_at_drop_column) auto
  then show ?thesis
    by (auto simp: canonical_row_def split: option.splits)
qed

lemma values_tolist_text_rows:
  assumes "\<forall>row \<in> set rs. \<not> list_all is_number row"
  shows "values_tolist rs = rs"
proof (cases rs)
  case Nil
  then show ?thesis by (simp add: values_tolist_def)
next
  case (Cons row rest)
  with assms show ?thesis by (simp add: values_tolist_def)
qed

lemma canonical_row_has_text:
  assumes "text_or_missing (cell_at cols r col_name)"
  shows "\<not> list_all is_number (canonical_row cols r)"
proof -
  have "is_number (case cell_at cols r col_name of
                     None \<Rightarrow> CStr [] | Some v \<Rightarrow> if isna v then CStr [] else v) = False"
    using assms
    by (cases "cell_at cols r col_name" rule: text_or_missing.cases)
      (simp_all add: is_number_def)
  then show ?thesis
    by (simp add: canonical_row_def expected_columns_def)
qed

lemma update_values_of_save_df:
  assumes "save_df view = Some sdf"
    and "list_all (\<lambda>r. text_or_missing (cell_at (columns view) r col_name)) (rows view)"
  shows "update_values (final_save_df sdf) =
           header_row # map (canonical_row (columns view)) (kept_rows view)"
proof -
  from assms(1) have sdf: "sdf = \<lparr>columns = filter (\<lambda>k. k \<noteq> col_delete) (columns view),
       rows = map (drop_column col_delete (columns view)) (kept_rows view)\<rparr>"
    by (auto simp: save_df_def kept_rows_def Let_def split: if_splits)
  have "\<not> list_all is_number (canonical_row (columns view) r)"
    if "r \<in> set (kept_rows view)" for r
  proof -
    from that have "r \<in> set (rows view)"
      by (simp add: kept_rows_def)
    with assms(2) have "text_or_missing (cell_at (columns view) r col_name)"
      by (simp add: list_all_iff)
    then show ?thesis
      by (rule canonical_row_has_text)
  qed
  then have "\<forall>row \<in> set (map (canonical_row (columns view)) (kept_rows view)).
          \<not> list_all is_number row"
    by auto
  then have "values_tolist (map (canonical_row (columns view)) (kept_rows view))
      = map (canonical_row (columns view)) (kept_rows view)"
    by (rule values_tolist_text_rows)
  then show ?thesis
    by (simp add: sdf update_values_def final_save_df_def fillna_def reindex_def header_row_def
        final_row_canonical o_def)
qed

lemma save_df_editable:
  assumes "col_delete \<in> set (columns view)"
    and "list_all (\<lambda>r. flag_of (columns view) r \<noteq> None) (rows view)"
  shows "\<exists>sdf. save_df view = Some sdf"
  using assms by (simp add: save_df_def Let_def)

lemma edit_df_columns:
  "edit_df e df q = Inr shown \<Longrightarrow> columns shown = col_delete # columns df"
  by (auto simp: edit_df_def insert_first_def Let_def split: if_splits)

lemma edit_df_rows_no_filter:
  "edit_df e df [] = Inr shown \<Longrightarrow> rows shown = map (\<lambda>r. CBool False # r) (rows df)"
  by (auto simp: edit_df_def insert_first_def Let_def split: if_splits)

lemma editor_result_saves:
  assumes "edit_df e df q = Inr shown" and "editor_result shown edited_df"
  shows "\<exists>sdf. save_df edited_df = Some sdf"
proof (rule save_df_editable)
  from assms show "col_delete \<in> set (columns edited_df)"
    by (simp add: editor_result_def edit_df_columns)
  from assms(2) show "list_all (\<lambda>r. flag_of (columns edited_df) r \<noteq> None) (rows edited_df)"
    by (auto simp: editor_result_def list_all_iff)
qed

lemma save_changes_filter_active:
  assumes "save_df view = Some sdf" and "q \<noteq> []"
  shows "save_changes e view q w = (FilterActive, w)"
  using assms by (simp add: save_changes_def)

lemma editor_result_names:
  assumes "editor_result shown edited_df"
  shows "list_all (\<lambda>r. text_or_missing (cell_at (columns edited_df) r col_name))
           (rows edited_df)"
  using assms by (auto simp: editor_result_def list_all_iff)

lemma save_changes_written:
  assumes "save_df view = Some sdf"
    and "list_all (\<lambda>r. text_or_missing (cell_at (columns view) r col_name)) (rows view)"
    and "store_up e w" and "Suc (length (store_log w)) \<notin> set (store_faults e)"
  shows "save_changes e view [] w =
          (Saved, w\<lparr>grid := header_row # map (canonical_row (columns view)) (kept_rows view),
                    store_log := store_log w @
                      [Clear, Update (header_row # map (canonical_row (columns view)) (kept_rows view))]\<rparr>)"
  using assms
  by (simp add: save_changes_def sheet_clear_def sheet_update_def store_up_def
      update_values_of_save_df overlay_grid_empty)


lemmas sample_defs = quiet_env_def old_world_def three_venues_def venue_def table_row_def
  view_row_def sample_view_def washoku_def kitaguchi_def expected_columns_def

lemmas frame_defs = load_df_def DataFrame_def df_empty_def ensure_column_def add_none_column_def
  record_cell_def edit_df_def insert_first_def editor_result_def flag_of_def cell_at_def
  as_stored_def raw_column_def float_column_def is_number_def

section \<open>Saving under an active filter\<close>

text \<open>
  Claim C1. For every table \<open>df\<close>, every non-empty search query and every frame the editor
  can return for the view filtered by that query, the save handler ends with the filter-active
  warning and leaves the world as it was: the worksheet's cells are unchanged and no call is
  issued to the store.
\<close>

theorem filter_active_refuses_save:
  assumes "search_query \<noteq> []"
    and "edit_df e df search_query = Inr shown"
    and "editor_result shown edited_df"
  shows "save_changes e edited_df search_query w = (FilterActive, w)"
proof -
  from assms(2,3) obtain sdf where "save_df edited_df = Some sdf"
    using editor_result_saves by blast
  with assms(1) show ?thesis
    by (simp add: save_changes_filter_active)
qed

theorem filter_active_refuses_save_witness:
  "''B'' \<noteq> [] \<and>
   edit_df quiet_env (load_df three_venues) ''B'' = Inr (sample_view [view_row False ''B'' 4]) \<and>
   editor_result (sample_view [view_row False ''B'' 4]) (sample_view [view_row True ''B'' 4]) \<and>
   save_changes quiet_env (sample_view [view_row True ''B'' 4]) ''B'' old_world
     = (FilterActive, old_world)"
proof -
  have q: "''B'' \<noteq> []" by simp
  have p: "edit_df quiet_env (load_df three_venues) ''B'' = Inr (sample_view [view_row False ''B'' 4])"
    by (simp add: frame_defs sample_defs col_defs)
  have r: "editor_result (sample_view [view_row False ''B'' 4]) (sample_view [view_row True ''B'' 4])"
    by (auto simp: frame_defs sample_defs col_defs)
  from filter_active_refuses_save [OF q p r, of old_world] q p r show ?thesis
    by simp
qed


lemma canonical_row_skip_flag:
  "canonical_row (col_delete # cols) (x # r) = canonical_row cols r"
proof -
  have "\<And>c. c \<in> set expected_columns \<Longrightarrow> cell_at (col_delete # cols) (x # r) c = cell_at cols r c"
    using col_delete_not_expected by (auto simp: cell_at_def)
  then show ?thesis
    by (simp add: canonical_row_def)
qed

lemma length_canonical_row: "length (canonical_row cols r) = 9"
  by (simp add: canonical_row_def expected_columns_def)

lemma kept_rows_in_table_order:
  assumes "columns edited_df = col_delete # cols"
    and "list_all (\<lambda>r. length r = Suc (length cols)) (rows edited_df)"
    and "map tl (rows edited_df) = table_rows"
  shows "subseq (map (canonical_row (columns edited_df)) (kept_rows edited_df))
           (map (canonical_row cols) table_rows)"
proof -
  have "canonical_row cols (tl r) = canonical_row (columns edited_df) r"
    if "r \<in> set (rows edited_df)" for r
  proof -
    from that assms(2) have "length r = Suc (length cols)"
      by (simp add: list_all_iff)
    then obtain x xs where "r = x # xs"
      by (cases r) auto
    then show ?thesis
      by (simp add: assms(1) canonical_row_skip_flag)
  qed
  then have "map (canonical_row cols) table_rows
      = map (canonical_row (columns edited_df)) (rows edited_df)"
    unfolding assms(3) [symmetric] by simp
  moreover have "subseq (map (canonical_row (columns edited_df)) (kept_rows edited_df))
      (map (canonical_row (columns edited_df)) (rows edited_df))"
    unfolding kept_rows_def by (rule subseq_map) simp
  ultimately show ?thesis
    by simp
qed

section \<open>Saving without a filter\<close>

text \<open>
  Claim C2. For every table \<open>df\<close>, with no search query and the store answering the two
  calls, the save handler succeeds for every frame the editor can return for the view of
  \<open>df\<close>. The worksheet then holds the header row of the nine expected columns followed by
  exactly the rows of the edited view whose deletion flag is false, each in canonical order
  and of nine cells, in the order of the view. The view has one row for each row of \<open>df\<close>,
  and when the user changed nothing but flags the written rows are a subsequence of the
  canonical rows of \<open>df\<close>: the surviving rows keep the relative order they had in the table.
\<close>

theorem save_without_filter_writes_kept_rows:
  assumes "edit_df e df [] = Inr shown"
    and "editor_result shown edited_df"
    and "store_up e w"
    and "Suc (length (store_log w)) \<notin> set (store_faults e)"
  shows "save_changes e edited_df [] w =
           (Saved,
            w\<lparr>grid := header_row # map (canonical_row (columns edited_df)) (kept_rows edited_df),
              store_log := store_log w @
                [Clear,
                 Update (header_row #
                         map (canonical_row (columns edited_df)) (kept_rows edited_df))]\<rparr>) \<and>
         list_all (\<lambda>r. length r = 9)
           (map (canonical_row (columns edited_df)) (kept_rows edited_df)) \<and>
         length (rows edited_df) = length (rows df) \<and>
         (map tl (rows edited_df) = rows df \<longrightarrow>
            subseq (map (canonical_row (columns edited_df)) (kept_rows edited_df))
              (map (canonical_row (columns df)) (rows df)))"
proof -
  from assms(1,2) obtain sdf where sdf: "save_df edited_df = Some sdf"
    using editor_result_saves by blast
  have cols: "columns edited_df = col_delete # columns df"
    using assms(1,2) by (simp add: editor_result_def edit_df_columns)
  have aligned: "list_all (\<lambda>r. length r = Suc (length (columns df))) (rows edited_df)"
    using assms(1,2) by (auto simp: editor_result_def edit_df_columns list_all_iff)
  have len: "length (rows edited_df) = length (rows df)"
    using assms(1,2) by (simp add: editor_result_def edit_df_rows_no_filter)
  have written: "save_changes e edited_df [] w =
           (Saved,
            w\<lparr>grid := header_row # map (canonical_row (columns edited_df)) (kept_rows edited_df),
              store_log := store_log w @
                [Clear,
                 Update (header_row #
                         map (canonical_row (columns edited_df)) (kept_rows edited_df))]\<rparr>)"
    using sdf editor_result_names [OF assms(2)] assms(3,4) by (rule save_changes_written)
  have nine: "list_all (\<lambda>r. length r = 9)
           (map (canonical_row (columns edited_df)) (kept_rows edited_df))"
    by (simp add: list_all_iff length_canonical_row)
  have order: "map tl (rows edited_df) = rows df \<longrightarrow>
            subseq (map (canonical_row (columns edited_df)) (kept_rows edited_df))
              (map (canonical_row (columns df)) (rows df))"
    using kept_rows_in_table_order [OF cols aligned] by blast
  from written nine len order show ?thesis
    by blast
qed

lemmas save_defs = save_changes_def save_df_def sheet_clear_def sheet_update_def store_up_def
  update_values_def final_save_df_def fillna_def reindex_def drop_column_def kept_rows_def
  canonical_row_def header_row_def

theorem save_without_filter_writes_kept_rows_witness:
  "edit_df quiet_env (load_df three_venues) []
     = Inr (sample_view [view_row False ''A'' 3, view_row False ''B'' 4, view_row False ''C'' 5]) \<and>
   editor_result
     (sample_view [view_row False ''A'' 3, view_row False ''B'' 4, view_row False ''C'' 5])
     (sample_view [view_row False ''A'' 3, view_row True ''B'' 4, view_row False ''C'' 5]) \<and>
   store_up quiet_env old_world \<and>
   Suc (length (store_log old_world)) \<notin> set (store_faults quiet_env) \<and>
   save_changes quiet_env
     (sample_view [view_row False ''A'' 3, view_row True ''B'' 4, view_row False ''C'' 5])
     [] old_world
     = (Saved,
        \<lparr>grid = [header_row, table_row ''A'' 3, table_row ''C'' 5],
         store_log = [Clear, Update [header_row, table_row ''A'' 3, table_row ''C'' 5]],
         geo_log = []\<rparr>) \<and>
   subseq [table_row ''A'' 3, table_row ''C'' 5]
     [table_row ''A'' 3, table_row ''B'' 4, table_row ''C'' 5]"
proof -
  let ?shown = "sample_view [view_row False ''A'' 3, view_row False ''B'' 4, view_row False ''C'' 5]"
  let ?edited = "sample_view [view_row False ''A'' 3, view_row True ''B'' 4, view_row False ''C'' 5]"
  have p: "edit_df quiet_env (load_df three_venues) [] = Inr ?shown"
    by (simp add: frame_defs sample_defs col_defs)
  have r: "editor_result ?shown ?edited"
    by (auto simp: frame_defs sample_defs col_defs)
  have u: "store_up quiet_env old_world"
    by (simp add: store_up_def sample_defs)
  have v: "Suc (length (store_log old_world)) \<notin> set (store_faults quiet_env)"
    by (simp add: sample_defs)
  have k: "map (canonical_row (columns ?edited)) (kept_rows ?edited)
      = [table_row ''A'' 3, table_row ''C'' 5]"
    by (simp add: save_defs frame_defs sample_defs col_defs)
  have t: "map (canonical_row (columns (load_df three_venues))) (rows (load_df three_venues))
      = [table_row ''A'' 3, table_row ''B'' 4, table_row ''C'' 5]"
    by (simp add: save_defs frame_defs sample_defs col_defs)
  have e: "map tl (rows ?edited) = rows (load_df three_venues)"
    by (simp add: frame_defs sample_defs col_defs)
  from save_without_filter_writes_kept_rows [OF p r u v] k t e p r u v show ?thesis
    by (simp add: old_world_def)
qed

section \<open>No validation in the save handler\<close>

text \<open>
  Claim C3 says that the save handler validates every kept row against the field rules and
  writes nothing when one fails. The handler has no such step. Below, a table whose only row
  has the rating 6 is loaded, shown without a filter, left unedited and saved: the row is
  kept, it breaks the field rules, the handler reports success and the worksheet is
  rewritten with that row.
\<close>

theorem save_validates_nothing_counterexample:
  "edit_df quiet_env (load_df [venue ''A'' 6]) [] = Inr (sample_view [view_row False ''A'' 6]) \<and>
   kept_rows (sample_view [view_row False ''A'' 6]) = [view_row False ''A'' 6] \<and>
   \<not> valid_row (columns (sample_view [view_row False ''A'' 6])) (view_row False ''A'' 6) \<and>
   save_changes quiet_env (sample_view [view_row False ''A'' 6]) [] old_world
     = (Saved,
        \<lparr>grid = [header_row, table_row ''A'' 6],
         store_log = [Clear, Update [header_row, table_row ''A'' 6]],
         geo_log = []\<rparr>) \<and>
   [header_row, table_row ''A'' 6] \<noteq> grid old_world"
proof -
  have "edit_df quiet_env (load_df [venue ''A'' 6]) [] = Inr (sample_view [view_row False ''A'' 6])"
    by (simp add: frame_defs sample_defs col_defs)
  moreover have "kept_rows (sample_view [view_row False ''A'' 6]) = [view_row False ''A'' 6]"
    by (simp add: kept_rows_def frame_defs sample_defs col_defs)
  moreover have "\<not> valid_row (columns (sample_view [view_row False ''A'' 6])) (view_row False ''A'' 6)"
    by (simp add: valid_row_def frame_defs sample_defs col_defs)
  moreover have "save_changes quiet_env (sample_view [view_row False ''A'' 6]) [] old_world
     = (Saved,
        \<lparr>grid = [header_row, table_row ''A'' 6],
         store_log = [Clear, Update [header_row, table_row ''A'' 6]],
         geo_log = []\<rparr>)"
  proof -
    let ?view = "sample_view [view_row False ''A'' 6]"
    have "\<exists>sdf. save_df ?view = Some sdf"
      by (rule save_df_editable) (auto simp: frame_defs sample_defs col_defs)
    then obtain sdf where s: "save_df ?view = Some sdf" ..
    have u: "store_up quiet_env old_world"
      by (simp add: store_up_def sample_defs)
    have v: "Suc (length (store_log old_world)) \<notin> set (store_faults quiet_env)"
      by (simp add: sample_defs)
    have t: "list_all (\<lambda>r. text_or_missing (cell_at (columns ?view) r col_name)) (rows ?view)"
      by (simp add: frame_defs sample_defs col_defs)
    have c: "map (canonical_row (columns ?view)) (kept_rows ?view) = [table_row ''A'' 6]"
      by (simp add: kept_rows_def canonical_row_def frame_defs sample_defs col_defs)
    show ?thesis
      unfolding save_changes_written [OF s t u v] c by (simp add: old_world_def)
  qed
  moreover have "[header_row, table_row ''A'' 6] \<noteq> grid old_world"
    by (simp add: old_world_def)
  ultimately show ?thesis
    by blast
qed

text \<open>
  Claim C3, as amended. On a save with no search query the kept rows are not validated
  against the field rules: for every frame the editor can return, when the two store calls
  do not raise, the handler succeeds and every kept row is among the written rows, in
  canonical form, whatever its name, rating, genre and area are.
\<close>

theorem save_writes_kept_rows_unvalidated:
  assumes "edit_df e df [] = Inr shown"
    and "editor_result shown edited_df"
    and "store_up e w"
    and "Suc (length (store_log w)) \<notin> set (store_faults e)"
  shows "fst (save_changes e edited_df [] w) = Saved \<and>
         (\<forall>r \<in> set (kept_rows edited_df).
            canonical_row (columns edited_df) r
              \<in> set (tl (grid (snd (save_changes e edited_df [] w)))))"
proof -
  from assms(1,2) obtain sdf where "save_df edited_df = Some sdf"
    using editor_result_saves by blast
  then show ?thesis
    using editor_result_names [OF assms(2)] assms(3,4) by (simp add: save_changes_written)
qed

theorem save_writes_kept_rows_unvalidated_witness:
  "edit_df quiet_env (load_df [venue [] 0]) [] = Inr (sample_view [view_row False [] 0]) \<and>
   editor_result (sample_view [view_row False [] 0]) (sample_view [view_row False [] 0]) \<and>
   store_up quiet_env old_world \<and>
   Suc (length (store_log old_world)) \<notin> set (store_faults quiet_env) \<and>
   \<not> valid_row (columns (sample_view [view_row False [] 0])) (view_row False [] 0) \<and>
   fst (save_changes quiet_env (sample_view [view_row False [] 0]) [] old_world) = Saved \<and>
   table_row [] 0
     \<in> set (tl (grid (snd (save_changes quiet_env (sample_view [view_row False [] 0]) []
                               old_world))))"
proof -
  let ?view = "sample_view [view_row False [] 0]"
  have p: "edit_df quiet_env (load_df [venue [] 0]) [] = Inr ?view"
    by (simp add: frame_defs sample_defs col_defs)
  have r: "editor_result ?view ?view"
    by (auto simp: frame_defs sample_defs col_defs)
  have u: "store_up quiet_env old_world"
    by (simp add: store_up_def sample_defs)
  have v: "Suc (length (store_log old_world)) \<notin> set (store_faults quiet_env)"
    by (simp add: sample_defs)
  have n: "\<not> valid_row (columns ?view) (view_row False [] 0)"
    by (simp add: valid_row_def frame_defs sample_defs col_defs)
  have k: "view_row False [] 0 \<in> set (kept_rows ?view)"
    by (simp add: kept_rows_def frame_defs sample_defs col_defs)
  have c: "canonical_row (columns ?view) (view_row False [] 0) = table_row [] 0"
    by (simp add: canonical_row_def frame_defs sample_defs col_defs)
  from save_writes_kept_rows_unvalidated [OF p r u v] k c p r u v n show ?thesis
    by auto
qed

section \<open>Lemmas on loading\<close>

lemma three_distinct: "col_lat \<noteq> col_lon" "col_lat \<noteq> col_address" "col_lon \<noteq> col_address"
  by (simp_all add: col_defs)

lemma three_expected: "col_lat \<in> set expected_columns" "col_lon \<in> set expected_columns"
  "col_address \<in> set expected_columns"
  by (simp_all add: expected_columns_def)

lemma load_df_unfolded:
  "load_df data =
     (if df_empty (DataFrame data) then \<lparr>columns = expected_columns, rows = []\<rparr>
      else
        \<lparr>columns = columns (DataFrame data) @
           filter (\<lambda>c. c \<notin> set (columns (DataFrame data))) [col_lat, col_lon, col_address],
         rows = map (\<lambda>r. r @ map (\<lambda>c. CNone)
                      (filter (\<lambda>c. c \<notin> set (columns (DataFrame data)))
                         [col_lat, col_lon, col_address]))
                  (rows (DataFrame data))\<rparr>)"
proof (cases "df_empty (DataFrame data)")
  case True
  then show ?thesis
    by (simp add: load_df_def ensure_column_def three_expected)
next
  case False
  then show ?thesis
    using three_distinct
    by (simp add: load_df_def ensure_column_def add_none_column_def Let_def)
qed

lemma set_first_seen: "set (first_seen seen ks) = set ks - set seen"
  by (induction ks arbitrary: seen) auto

lemma distinct_first_seen: "distinct (first_seen seen ks)"
  by (induction ks arbitrary: seen) (auto simp: set_first_seen)

lemma columns_DataFrame: "set (columns (DataFrame data)) = raw_columns data"
  by (simp add: DataFrame_def Let_def set_first_seen raw_columns_def)

lemma distinct_columns_DataFrame: "distinct (columns (DataFrame data))"
  by (simp add: DataFrame_def Let_def distinct_first_seen)

lemma rows_DataFrame:
  "rows (DataFrame data) =
     map (\<lambda>r. map (\<lambda>c. as_stored (raw_column data c) (record_cell r c))
                (columns (DataFrame data))) data"
  by (simp add: DataFrame_def Let_def)

lemma raw_columns_empty: "raw_columns data = {} \<longleftrightarrow> list_all (\<lambda>r. r = []) data"
  by (auto simp: raw_columns_def list_all_iff)

lemma df_empty_DataFrame: "df_empty (DataFrame data) \<longleftrightarrow> list_all (\<lambda>r. r = []) data"
proof -
  have "columns (DataFrame data) = [] \<longleftrightarrow> raw_columns data = {}"
    using columns_DataFrame [of data] by (metis set_empty)
  moreover have "data = [] \<Longrightarrow> list_all (\<lambda>r. r = []) data"
    by simp
  ultimately show ?thesis
    by (auto simp: df_empty_def rows_DataFrame raw_columns_empty)
qed


lemma cell_at_extended:
  "cell_at (cols @ extra) (map f cols @ map g extra) c =
     (if c \<in> set cols then Some (f c) else if c \<in> set extra then Some (g c) else None)"
  by (simp add: cell_at_def map_of_zip_map map_add_def)








section \<open>Loading the table\<close>

text \<open>
  Claim C4 says that loading brings every raw table to the canonical schema: each canonical
  column absent from the input synthesized as empty, unknown columns dropped. The script
  does this only for an empty table. For any other table it keeps every input column and adds
  just the latitude, longitude and address columns when they are missing. Below, a table
  with a name column and a column \<open>extra\<close> is loaded: the genre column is not synthesized
  and \<open>extra\<close> is not dropped.
\<close>

theorem load_keeps_columns_counterexample:
  "columns (load_df [[(col_name, CStr ''A''), (''extra'', CStr ''x'')]])
     = [col_name, ''extra'', col_lat, col_lon, col_address] \<and>
   col_genre \<in> set expected_columns \<and>
   col_genre \<notin> set (columns (load_df [[(col_name, CStr ''A''), (''extra'', CStr ''x'')]])) \<and>
   ''extra'' \<notin> set expected_columns \<and>
   ''extra'' \<in> set (columns (load_df [[(col_name, CStr ''A''), (''extra'', CStr ''x'')]]))"
  by (simp add: frame_defs expected_columns_def col_defs)

text \<open>
  Claim C4, as amended. A raw table with no record, or whose records have no key, is loaded
  as the empty frame over exactly the nine canonical columns. Any other raw table is loaded
  with one row for each record, every row aligned with the columns, and its columns are
  exactly the columns the input mentions together with latitude, longitude and address, none
  twice: unknown columns are not dropped and no other canonical column is synthesized. Each
  of the three columns that the input lacks is synthesized as empty: it holds \<open>None\<close> in
  every row.
\<close>

theorem load_df_synthesizes_three_columns:
  "(df_empty (DataFrame data) \<longleftrightarrow> list_all (\<lambda>r. r = []) data) \<and>
   (list_all (\<lambda>r. r = []) data \<longrightarrow>
      load_df data = \<lparr>columns = expected_columns, rows = []\<rparr>) \<and>
   (\<not> list_all (\<lambda>r. r = []) data \<longrightarrow>
      set (columns (load_df data)) = raw_columns data \<union> {col_lat, col_lon, col_address} \<and>
      distinct (columns (load_df data)) \<and>
      length (rows (load_df data)) = length data \<and>
      (\<forall>row \<in> set (rows (load_df data)).
         length row = length (columns (load_df data)) \<and>
         (\<forall>c \<in> {col_lat, col_lon, col_address} - raw_columns data.
            cell_at (columns (load_df data)) row c = Some CNone)))"
proof -
  have empty: "load_df data = \<lparr>columns = expected_columns, rows = []\<rparr>"
    if "list_all (\<lambda>r. r = []) data"
    using that by (simp add: load_df_unfolded df_empty_DataFrame)
  have loaded:
    "set (columns (load_df data)) = raw_columns data \<union> {col_lat, col_lon, col_address} \<and>
      distinct (columns (load_df data)) \<and>
      length (rows (load_df data)) = length data \<and>
      (\<forall>row \<in> set (rows (load_df data)).
         length row = length (columns (load_df data)) \<and>
         (\<forall>c \<in> {col_lat, col_lon, col_address} - raw_columns data.
            cell_at (columns (load_df data)) row c = Some CNone))"
    if "\<not> list_all (\<lambda>r. r = []) data"
  proof -
    define extra where
      "extra = filter (\<lambda>c. c \<notin> set (columns (DataFrame data))) [col_lat, col_lon, col_address]"
    have extra: "set extra = {col_lat, col_lon, col_address} - raw_columns data"
      by (auto simp: extra_def columns_DataFrame)
    have dextra: "distinct extra"
      using three_distinct by (simp add: extra_def)
    from that have "\<not> df_empty (DataFrame data)"
      by (simp add: df_empty_DataFrame)
    then have l: "load_df data =
        \<lparr>columns = columns (DataFrame data) @ extra,
         rows = map (\<lambda>r. r @ map (\<lambda>c. CNone) extra) (rows (DataFrame data))\<rparr>"
      by (subst load_df_unfolded) (simp add: extra_def)
    have cols: "set (columns (load_df data)) = raw_columns data \<union> {col_lat, col_lon, col_address}"
      using extra by (auto simp: l columns_DataFrame)
    have dist: "distinct (columns (load_df data))"
      using extra dextra by (auto simp: l distinct_columns_DataFrame columns_DataFrame)
    have len: "length (rows (load_df data)) = length data"
      by (simp add: l rows_DataFrame)
    have "length row = length (columns (load_df data)) \<and>
         (\<forall>c \<in> {col_lat, col_lon, col_address} - raw_columns data.
            cell_at (columns (load_df data)) row c = Some CNone)"
      if "row \<in> set (rows (load_df data))" for row
    proof -
      from that obtain r where row: "row =
          map (\<lambda>c. as_stored (raw_column data c) (record_cell r c)) (columns (DataFrame data)) @
          map (\<lambda>c. CNone) extra"
        by (auto simp: l rows_DataFrame)
      have "cell_at (columns (load_df data)) row c = Some CNone"
        if "c \<in> {col_lat, col_lon, col_address} - raw_columns data" for c
      proof -
        from that extra have "c \<in> set extra" "c \<notin> set (columns (DataFrame data))"
          by (simp_all add: columns_DataFrame)
        then show ?thesis
          by (simp add: l row cell_at_extended)
      qed
      then show ?thesis
        by (simp add: l row)
    qed
    with cols dist len show ?thesis
      by blast
  qed
  from empty loaded df_empty_DataFrame [of data] show ?thesis
    by blast
qed

theorem load_df_synthesizes_three_columns_witness:
  "\<not> list_all (\<lambda>r. r = []) [[(col_name, CStr ''A''), (''extra'', CStr ''x'')]] \<and>
   set (columns (load_df [[(col_name, CStr ''A''), (''extra'', CStr ''x'')]]))
     = {col_name, ''extra'', col_lat, col_lon, col_address} \<and>
   load_df [[(col_name, CStr ''A''), (''extra'', CStr ''x'')]] =
     \<lparr>columns = [col_name, ''extra'', col_lat, col_lon, col_address],
      rows = [[CStr ''A'', CStr ''x'', CNone, CNone, CNone]]\<rparr> \<and>
   load_df [[], []] = \<lparr>columns = expected_columns, rows = []\<rparr>"
proof -
  let ?data = "[[(col_name, CStr ''A''), (''extra'', CStr ''x'')]]"
  have n: "\<not> list_all (\<lambda>r. r = []) ?data"
    by simp
  have e: "list_all (\<lambda>r. r = []) [[], []::raw_record]"
    by simp
  have r: "raw_columns ?data = {col_name, ''extra''}"
    by (simp add: raw_columns_def)
  have "set (columns (load_df ?data)) = {col_name, ''extra'', col_lat, col_lon, col_address}"
    using load_df_synthesizes_three_columns [of ?data] n r by auto
  moreover have "load_df ?data =
     \<lparr>columns = [col_name, ''extra'', col_lat, col_lon, col_address],
      rows = [[CStr ''A'', CStr ''x'', CNone, CNone, CNone]]\<rparr>"
    by (simp add: frame_defs col_defs)
  moreover have "load_df [[], []] = \<lparr>columns = expected_columns, rows = []\<rparr>"
    using load_df_synthesizes_three_columns [of "[[], []]"] e by blast
  ultimately show ?thesis
    using n by blast
qed

section \<open>Loading, then preparing the write\<close>



section \<open>Lemmas on the geocoder and on the form handler\<close>

lemma geocode_eq: "geocode e q w = (next_reply e w, w\<lparr>geo_log := geo_log w @ [q]\<rparr>)"
  by (simp add: geocode_def next_reply_def Let_def)

lemma resolve_geo_log:
  "geo_log (snd (resolve e a w)) =
     geo_log w @ (if next_reply e w = GeoNone \<and> search_word a \<noteq> a then [a, search_word a] else [a])"
  by (simp add: resolve_def geocode_eq split: geo_reply.splits)

lemma resolve_leaves_store:
  "store_log (snd (resolve e a w)) = store_log w \<and> grid (snd (resolve e a w)) = grid w"
  by (simp add: resolve_def geocode_eq split: geo_reply.splits)

lemma locate_world:
  "snd (locate e f w) = (if geocoding_wanted e f then snd (resolve e (address f) w) else w)"
  by (simp add: locate_def geocoding_wanted_def Let_def split: prod.splits)

lemma locate_status:
  "fst (fst (locate e f w)) =
     (if geocoding_wanted e f then fst (resolve e (address f) w) else GeoSkipped)"
  by (simp add: locate_def geocoding_wanted_def Let_def split: prod.splits)

lemma locate_coordinates:
  "snd (fst (locate e f w)) =
     (case fst (fst (locate e f w)) of
        GeoFound loc \<Rightarrow> (or_empty (CFloat (latitude loc)), or_empty (CFloat (longitude loc)))
      | _ \<Rightarrow> (or_empty (CStr (lat_input f)), or_empty (CStr (lon_input f))))"
  by (simp add: locate_def Let_def split: prod.splits geo_status.splits)

lemma search_word_differs:
  "search_word a \<noteq> a \<longleftrightarrow> \<not> (str_in tachikawa a \<and> str_in tokyo_to a)"
  by (simp add: search_word_def prefix_tokyo_def prefix_tokyo_tachikawa_def)

lemma str_in_sublist: "str_in xs ys \<longleftrightarrow> sublist xs ys"
  by (induction ys) (auto simp: sublist_Cons_right)


lemmas geo_sample_defs = quiet_env_def old_world_def sample_form_def station_def tachikawa_def
  tokyo_to_def prefix_tokyo_def prefix_tokyo_tachikawa_def washoku_def kitaguchi_def

section \<open>The geocoding attempts\<close>

text \<open>
  Claim C6. With geopy there and no latitude typed in, the coordinates of a new row are
  resolved as follows. An empty address sends no query and resolves nothing. Any other
  address is sent as it is first; a second query follows only when the first found nothing
  and the qualified query differs from the address, and it is then the only other query. The
  qualified query is the address behind the region-and-locality prefix when the address lacks
  the locality name, else behind the region prefix when it lacks the region name, else the
  address itself; it differs from the address unless the address has both names.
\<close>

theorem resolve_attempts:
  assumes "GEOPY_AVAILABLE e" and "lat_input f = []"
  shows "geo_log (snd (locate e f w)) =
           geo_log w @
             (if address f = [] then []
              else if next_reply e w = GeoNone \<and> search_word (address f) \<noteq> address f
                then [address f, search_word (address f)]
                else [address f]) \<and>
         (address f = [] \<longrightarrow> fst (fst (locate e f w)) = GeoSkipped \<and> snd (locate e f w) = w) \<and>
         search_word (address f) =
           (if \<not> str_in tachikawa (address f) then prefix_tokyo_tachikawa @ address f
            else if \<not> str_in tokyo_to (address f) then prefix_tokyo @ address f
            else address f) \<and>
         (search_word (address f) \<noteq> address f \<longleftrightarrow>
            \<not> (str_in tachikawa (address f) \<and> str_in tokyo_to (address f)))"
  using assms
  by (simp add: locate_world locate_status geocoding_wanted_def resolve_geo_log
      search_word_differs) (simp add: search_word_def)

lemma prefixes_not_empty: "prefix_tokyo \<noteq> []" "prefix_tokyo_tachikawa \<noteq> []"
  by (simp_all add: prefix_tokyo_def prefix_tokyo_tachikawa_def)

lemma quiet_next_reply: "next_reply quiet_env old_world = GeoNone"
  by (simp add: next_reply_def geocode_def quiet_env_def old_world_def)

theorem resolve_attempts_witness:
  "GEOPY_AVAILABLE quiet_env \<and> lat_input (sample_form\<lparr>address := ''Dandelion Bakery''\<rparr>) = [] \<and>
   geo_log (snd (locate quiet_env (sample_form\<lparr>address := ''Dandelion Bakery''\<rparr>) old_world))
     = [''Dandelion Bakery'', prefix_tokyo_tachikawa @ ''Dandelion Bakery''] \<and>
   geo_log (snd (locate quiet_env sample_form old_world)) = []"
proof -
  let ?f = "sample_form\<lparr>address := ''Dandelion Bakery''\<rparr>"
  have a: "GEOPY_AVAILABLE quiet_env"
    by (simp add: quiet_env_def)
  have b: "lat_input ?f = []"
    by (simp add: sample_form_def)
  have c: "lat_input sample_form = []"
    by (simp add: sample_form_def)
  have addr: "address ?f = ''Dandelion Bakery''" "address sample_form = []"
    by (simp_all add: sample_form_def)
  have s: "search_word ''Dandelion Bakery'' = prefix_tokyo_tachikawa @ ''Dandelion Bakery''"
    by (simp add: search_word_def tachikawa_def)
  have "geo_log (snd (locate quiet_env ?f old_world))
      = [''Dandelion Bakery'', prefix_tokyo_tachikawa @ ''Dandelion Bakery'']"
    unfolding resolve_attempts [OF a b, of old_world, THEN conjunct1] addr s
    by (simp add: quiet_next_reply prefixes_not_empty) (simp add: old_world_def)
  moreover have "geo_log (snd (locate quiet_env sample_form old_world)) = []"
    unfolding resolve_attempts [OF a c, of old_world, THEN conjunct1] addr
    by (simp add: old_world_def)
  ultimately show ?thesis
    using a b by blast
qed

text \<open>
  Claim C7 says that an address holding the locality name is tried once only. The script
  also looks for the region name: the station's name holds the locality and not the region,
  so after a first attempt that finds nothing the script sends a second query, the address
  behind the region prefix.
\<close>

theorem locality_alone_is_retried_counterexample:
  "str_in tachikawa station \<and>
   next_reply quiet_env old_world = GeoNone \<and>
   geo_log (snd (locate quiet_env (sample_form\<lparr>address := station\<rparr>) old_world))
     = [station, prefix_tokyo @ station]"
proof -
  have "str_in tachikawa station"
    by (simp add: station_def tachikawa_def)
  moreover have s: "search_word station = prefix_tokyo @ station"
    by (simp add: search_word_def station_def tachikawa_def tokyo_to_def)
  have w: "geocoding_wanted quiet_env (sample_form\<lparr>address := station\<rparr>)"
    by (simp add: geocoding_wanted_def quiet_env_def sample_form_def station_def)
  have "address (sample_form\<lparr>address := station\<rparr>) = station"
    by (simp add: sample_form_def)
  then have "geo_log (snd (locate quiet_env (sample_form\<lparr>address := station\<rparr>) old_world))
     = [station, prefix_tokyo @ station]"
    by (simp add: locate_world w resolve_geo_log s quiet_next_reply prefixes_not_empty)
      (simp add: old_world_def)
  ultimately show ?thesis
    using quiet_next_reply by blast
qed

text \<open>
  Claim C7, as amended. For an address that holds the locality name, with geopy there and no
  latitude typed in: when the address also holds the region name, or the first attempt does
  not come back empty, the address is the only query sent; otherwise exactly one more query
  is sent, the address behind the region prefix.
\<close>

theorem fully_qualified_address_single_attempt:
  assumes "GEOPY_AVAILABLE e" and "lat_input f = []" and "str_in tachikawa (address f)"
  shows "geo_log (snd (locate e f w)) =
           geo_log w @
             (if str_in tokyo_to (address f) \<or> next_reply e w \<noteq> GeoNone then [address f]
              else [address f, prefix_tokyo @ address f])"
proof -
  from assms(3) have "address f \<noteq> []"
    by (auto simp: tachikawa_def)
  with assms show ?thesis
    by (auto simp: locate_world geocoding_wanted_def resolve_geo_log search_word_def
        prefix_tokyo_def)
qed

theorem fully_qualified_address_single_attempt_witness:
  "GEOPY_AVAILABLE quiet_env \<and>
   lat_input (sample_form\<lparr>address := tokyo_to @ station\<rparr>) = [] \<and>
   str_in tachikawa (address (sample_form\<lparr>address := tokyo_to @ station\<rparr>)) \<and>
   next_reply quiet_env old_world = GeoNone \<and>
   geo_log (snd (locate quiet_env (sample_form\<lparr>address := tokyo_to @ station\<rparr>) old_world))
     = [tokyo_to @ station]"
proof -
  let ?f = "sample_form\<lparr>address := tokyo_to @ station\<rparr>"
  have a: "GEOPY_AVAILABLE quiet_env"
    by (simp add: quiet_env_def)
  have b: "lat_input ?f = []"
    by (simp add: sample_form_def)
  have c: "str_in tachikawa (address ?f)"
    by (simp add: sample_form_def station_def tachikawa_def tokyo_to_def)
  have d: "str_in tokyo_to (address ?f)"
    by (simp add: sample_form_def station_def tokyo_to_def)
  have "geo_log (snd (locate quiet_env ?f old_world)) = [tokyo_to @ station]"
    unfolding fully_qualified_address_single_attempt [OF a b c, of old_world]
    using d by (simp add: old_world_def sample_form_def)
  then show ?thesis
    using a b c quiet_next_reply by blast
qed


lemma locate_leaves_store:
  "store_log (snd (locate e f w)) = store_log w \<and> grid (snd (locate e f w)) = grid w"
  by (simp add: locate_world resolve_leaves_store)

lemma register_accepted:
  assumes "name f \<noteq> []"
  shows "register e f w =
     ((if store_up e w
       then Registered
              [CStr (name f), CStr (genre f), CStr (area f), CInt (rating f), CStr (comment f),
               CStr (address f), CStr (now e), fst (snd (fst (locate e f w))),
               snd (snd (fst (locate e f w)))]
       else RegisterError, fst (fst (locate e f w))),
      (snd (locate e f w))
        \<lparr>grid := (if store_up e w
                  then grid w @
                    [[CStr (name f), CStr (genre f), CStr (area f), CInt (rating f),
                      CStr (comment f), CStr (address f), CStr (now e),
                      fst (snd (fst (locate e f w))), snd (snd (fst (locate e f w)))]]
                  else grid w),
         store_log := store_log w @
           [AppendRow
              [CStr (name f), CStr (genre f), CStr (area f), CInt (rating f), CStr (comment f),
               CStr (address f), CStr (now e), fst (snd (fst (locate e f w))),
               snd (snd (fst (locate e f w)))]]\<rparr>)"
proof -
  have up: "store_up e (snd (locate e f w)) = store_up e w"
    by (simp add: store_up_def locate_leaves_store)
  obtain status lat_val lon_val w1 where l: "locate e f w = ((status, lat_val, lon_val), w1)"
    by (metis prod.exhaust)
  from up l have "store_up e w1 = store_up e w"
    by simp
  moreover from l have "store_log w1 = store_log w" "grid w1 = grid w"
    using locate_leaves_store [of e f w] by simp_all
  ultimately show ?thesis
    using assms l by (simp add: register_def sheet_append_row_def Let_def)
qed

section \<open>The registration form\<close>

text \<open>
  Claim C8. A submitted form with an empty name is rejected with the name-required warning
  and the world is left as it was: no row is appended, no call reaches the store and no
  query reaches the geocoder.
\<close>

theorem empty_name_rejected:
  assumes "name f = []"
  shows "register e f w = ((NameRequired, GeoSkipped), w)"
  using assms by (simp add: register_def)

theorem empty_name_rejected_witness:
  "name (sample_form\<lparr>name := [], address := station\<rparr>) = [] \<and>
   register quiet_env (sample_form\<lparr>name := [], address := station\<rparr>) old_world
     = ((NameRequired, GeoSkipped), old_world)"
proof -
  have n: "name (sample_form\<lparr>name := [], address := station\<rparr>) = []"
    by simp
  from empty_name_rejected [OF n, of quiet_env old_world] n show ?thesis
    by blast
qed

text \<open>
  Claim C9. For a form with a name and no coordinates typed in, when no coordinates are
  obtained (the address is empty, or geopy is missing, or the resolution does not find a
  place, be it that nothing matched or that the geocoder raised) and the store takes the
  row, the registration succeeds and the appended row ends with an empty latitude and an
  empty longitude.
\<close>

theorem register_without_coordinates:
  assumes "name f \<noteq> []" and "lat_input f = []" and "lon_input f = []"
    and "address f = [] \<or> \<not> GEOPY_AVAILABLE e \<or> \<not> found (fst (resolve e (address f) w))"
    and "store_up e w"
  shows "fst (fst (register e f w)) =
           Registered
             [CStr (name f), CStr (genre f), CStr (area f), CInt (rating f), CStr (comment f),
              CStr (address f), CStr (now e), CStr [], CStr []] \<and>
         grid (snd (register e f w)) =
           grid w @
             [[CStr (name f), CStr (genre f), CStr (area f), CInt (rating f), CStr (comment f),
               CStr (address f), CStr (now e), CStr [], CStr []]]"
proof -
  have "\<not> found (fst (fst (locate e f w)))"
    using assms(4) by (auto simp: locate_status geocoding_wanted_def)
  then have "snd (fst (locate e f w)) = (CStr [], CStr [])"
    using assms(2,3)
    by (cases "fst (fst (locate e f w))") (simp_all add: locate_coordinates or_empty_def)
  then show ?thesis
    using assms(1,5) by (simp add: register_accepted)
qed


lemma quiet_store_up: "store_up (quiet_env\<lparr>geo_replies := rs\<rparr>) old_world"
  by (simp add: store_up_def quiet_env_def old_world_def)

theorem register_without_coordinates_witness:
  "fst (fst (register quiet_env sample_form old_world)) =
     Registered [CStr ''Gyoza Center'', CStr washoku, CStr kitaguchi, CInt 3, CStr [], CStr [],
                 CStr ''2024-05-01 12:00'', CStr [], CStr []] \<and>
   fst (fst (register quiet_env (sample_form\<lparr>address := ''Dandelion Bakery''\<rparr>) old_world)) =
     Registered [CStr ''Gyoza Center'', CStr washoku, CStr kitaguchi, CInt 3, CStr [],
                 CStr ''Dandelion Bakery'', CStr ''2024-05-01 12:00'', CStr [], CStr []] \<and>
   fst (fst (register (quiet_env\<lparr>geo_replies := [GeoRaise]\<rparr>)
               (sample_form\<lparr>address := station\<rparr>) old_world)) =
     Registered [CStr ''Gyoza Center'', CStr washoku, CStr kitaguchi, CInt 3, CStr [],
                 CStr station, CStr ''2024-05-01 12:00'', CStr [], CStr []] \<and>
   grid (snd (register (quiet_env\<lparr>geo_replies := [GeoRaise]\<rparr>)
               (sample_form\<lparr>address := station\<rparr>) old_world)) =
     [[CStr ''old''],
      [CStr ''Gyoza Center'', CStr washoku, CStr kitaguchi, CInt 3, CStr [],
       CStr station, CStr ''2024-05-01 12:00'', CStr [], CStr []]]"
proof -
  let ?bakery = "sample_form\<lparr>address := ''Dandelion Bakery''\<rparr>"
  let ?station = "sample_form\<lparr>address := station\<rparr>"
  let ?down = "quiet_env\<lparr>geo_replies := [GeoRaise]\<rparr>"
  have n: "name sample_form \<noteq> []" "name ?bakery \<noteq> []" "name ?station \<noteq> []"
    by (simp_all add: sample_form_def)
  have la: "lat_input sample_form = []" "lat_input ?bakery = []" "lat_input ?station = []"
    by (simp_all add: sample_form_def)
  have lo: "lon_input sample_form = []" "lon_input ?bakery = []" "lon_input ?station = []"
    by (simp_all add: sample_form_def)
  have c1: "address sample_form = [] \<or> \<not> GEOPY_AVAILABLE quiet_env \<or>
      \<not> found (fst (resolve quiet_env (address sample_form) old_world))"
    by (simp add: sample_form_def)
  have c2: "address ?bakery = [] \<or> \<not> GEOPY_AVAILABLE quiet_env \<or>
      \<not> found (fst (resolve quiet_env (address ?bakery) old_world))"
    by (simp add: resolve_def geocode_def quiet_env_def old_world_def Let_def)
  have c3: "address ?station = [] \<or> \<not> GEOPY_AVAILABLE ?down \<or>
      \<not> found (fst (resolve ?down (address ?station) old_world))"
    by (simp add: resolve_def geocode_def quiet_env_def old_world_def Let_def)
  have u: "store_up quiet_env old_world" "store_up ?down old_world"
    using quiet_store_up [of "[]"] quiet_store_up [of "[GeoRaise]"]
    by (simp_all add: quiet_env_def)
  from register_without_coordinates [OF n(1) la(1) lo(1) c1 u(1)]
    register_without_coordinates [OF n(2) la(2) lo(2) c2 u(1)]
    register_without_coordinates [OF n(3) la(3) lo(3) c3 u(2)]
  show ?thesis
    by (simp add: sample_form_def quiet_env_def old_world_def)
qed




end
